theory Spec2Isabelle
  imports Main "HOL-Library.Word"
begin

section \<open>JavaScript strings and primitive values\<close>

text \<open>
  A JavaScript string is a sequence of UTF-16 code units. String literals of the source
  are written with \<open>js\<close>, which maps each (ASCII) character to its code unit.
\<close>

type_synonym jsstring = "16 word list"

definition js :: "string \<Rightarrow> jsstring" where
  "js s = map (\<lambda>c. of_nat (of_char c)) s"

text \<open>
  The primitive values an attribute of a cookie can carry. Numbers are modelled by the
  integers (\<open>maxAge\<close> is a count of seconds); for an integer of magnitude below \<open>10^21\<close>
  both \<open>Number::toString\<close> and \<open>JSON.stringify\<close> give the decimal numeral. Larger and
  non-integral numbers, \<open>NaN\<close> and the infinities are outside this model.
\<close>

datatype jsval = JUndefined | JNull | JBool bool | JNum int | JStr jsstring

datatype js_error = URIError | TypeError

fun natToString :: "nat \<Rightarrow> jsstring" where
  "natToString n =
     (if n < 10 then [0x30 + of_nat n]
      else natToString (n div 10) @ [0x30 + of_nat (n mod 10)])"

declare natToString.simps [simp del]

definition numToString :: "int \<Rightarrow> jsstring" where
  "numToString n = (if n < 0 then js ''-'' @ natToString (nat (- n)) else natToString (nat n))"

text \<open>The conversion applied by \<open>"..." + v\<close>.\<close>

fun ToString :: "jsval \<Rightarrow> jsstring" where
  "ToString JUndefined = js ''undefined''"
| "ToString JNull = js ''null''"
| "ToString (JBool b) = (if b then js ''true'' else js ''false'')"
| "ToString (JNum n) = numToString n"
| "ToString (JStr s) = s"

text \<open>The conversion applied by \<open>if (v)\<close>, \<open>!v\<close> and \<open>v || w\<close>.\<close>

fun ToBoolean :: "jsval \<Rightarrow> bool" where
  "ToBoolean JUndefined = False"
| "ToBoolean JNull = False"
| "ToBoolean (JBool b) = b"
| "ToBoolean (JNum n) = (n \<noteq> 0)"
| "ToBoolean (JStr s) = (s \<noteq> [])"

section \<open>encodeURIComponent\<close>

text \<open>
  The built-in \<open>encodeURIComponent\<close>: code units in the unreserved set
  (letters, digits and \<open>- _ . ! ~ * ' ( )\<close>) are kept; every other code point is written
  as the percent-escaped octets of its UTF-8 encoding, with upper-case hexadecimal digits.
  A surrogate code unit that is not part of a well-formed pair raises \<open>URIError\<close>.
\<close>

definition uriUnreserved :: "16 word \<Rightarrow> bool" where
  "uriUnreserved c \<longleftrightarrow>
     (0x41 \<le> c \<and> c \<le> 0x5A) \<or> (0x61 \<le> c \<and> c \<le> 0x7A) \<or> (0x30 \<le> c \<and> c \<le> 0x39) \<or>
     c \<in> {0x2D, 0x5F, 0x2E, 0x21, 0x7E, 0x2A, 0x27, 0x28, 0x29}"

definition hexDigit :: "nat \<Rightarrow> 16 word" where
  "hexDigit d = (if d < 10 then 0x30 + of_nat d else 0x41 + of_nat (d - 10))"

definition pctOctet :: "nat \<Rightarrow> jsstring" where
  "pctOctet b = [0x25, hexDigit (b div 16), hexDigit (b mod 16)]"

definition utf8 :: "nat \<Rightarrow> nat list" where
  "utf8 v =
     (if v < 0x80 then [v]
      else if v < 0x800 then [0xC0 + v div 64, 0x80 + v mod 64]
      else if v < 0x10000 then [0xE0 + v div 4096, 0x80 + (v div 64) mod 64, 0x80 + v mod 64]
      else [0xF0 + v div 262144, 0x80 + (v div 4096) mod 64, 0x80 + (v div 64) mod 64,
            0x80 + v mod 64])"

definition pctEscape :: "nat \<Rightarrow> jsstring" where
  "pctEscape v = concat (map pctOctet (utf8 v))"

definition isLeadSurrogate :: "16 word \<Rightarrow> bool" where
  "isLeadSurrogate c \<longleftrightarrow> 0xD800 \<le> c \<and> c \<le> 0xDBFF"

definition isTrailSurrogate :: "16 word \<Rightarrow> bool" where
  "isTrailSurrogate c \<longleftrightarrow> 0xDC00 \<le> c \<and> c \<le> 0xDFFF"

fun encodeURIComponent :: "jsstring \<Rightarrow> js_error + jsstring" where
  "encodeURIComponent [] = Inr []"
| "encodeURIComponent (c # cs) =
     (if uriUnreserved c then map_sum id ((#) c) (encodeURIComponent cs)
      else if isTrailSurrogate c then Inl URIError
      else if \<not> isLeadSurrogate c then
        map_sum id ((@) (pctEscape (unat c))) (encodeURIComponent cs)
      else
        (case cs of
           [] \<Rightarrow> Inl URIError
         | k # cs' \<Rightarrow>
             if isTrailSurrogate k then
               map_sum id
                 ((@) (pctEscape ((unat c - 0xD800) * 0x400 + (unat k - 0xDC00) + 0x10000)))
                 (encodeURIComponent cs')
             else Inl URIError))"

section \<open>Objects as ordered own-property lists\<close>

text \<open>
  A plain object is modelled by the list of its own enumerable properties, in the order
  in which \<open>JSON.stringify\<close> and \<open>for ... in\<close> visit them: first the keys that are array
  indices (canonical decimal numerals below \<open>2^32 - 1\<close>) in ascending numeric order, then
  all other keys in the order of their creation.
\<close>

type_synonym 'a obj = "(jsstring \<times> 'a) list"

definition isDigit :: "16 word \<Rightarrow> bool" where
  "isDigit c \<longleftrightarrow> 0x30 \<le> c \<and> c \<le> 0x39"

definition digitsToNat :: "jsstring \<Rightarrow> nat" where
  "digitsToNat ds = foldl (\<lambda>n c. 10 * n + (unat c - 0x30)) 0 ds"

definition arrayIndex :: "jsstring \<Rightarrow> nat option" where
  "arrayIndex k =
     (case k of
        [] \<Rightarrow> None
      | c # cs \<Rightarrow>
          if list_all isDigit k \<and> (c \<noteq> 0x30 \<or> cs = []) \<and> digitsToNat k < 4294967295
          then Some (digitsToNat k) else None)"

text \<open>\<open>keyBefore k k'\<close>: a new key \<open>k\<close> is enumerated before the existing key \<open>k'\<close>.\<close>

definition keyBefore :: "jsstring \<Rightarrow> jsstring \<Rightarrow> bool" where
  "keyBefore k k' =
     (case arrayIndex k of
        None \<Rightarrow> False
      | Some i \<Rightarrow> (case arrayIndex k' of None \<Rightarrow> True | Some j \<Rightarrow> i < j))"

text \<open>
  Creating or overwriting the own data property \<open>k\<close>: an existing property keeps its
  position and takes the new value; a new property is placed in enumeration order.
\<close>

fun ownPut :: "jsstring \<Rightarrow> 'a \<Rightarrow> 'a obj \<Rightarrow> 'a obj" where
  "ownPut k v [] = [(k, v)]"
| "ownPut k v ((k', v') # ps) =
     (if k' = k then (k, v) # ps
      else if keyBefore k k' then (k, v) # (k', v') # ps
      else (k', v') # ownPut k v ps)"

text \<open>
  The assignment \<open>o[k] = v\<close> on an object created by \<open>{}\<close>, for a value \<open>v\<close> that is itself
  an object. The key \<open>__proto__\<close> is the accessor inherited from \<open>Object.prototype\<close>: the
  assignment runs its setter, which replaces the prototype of \<open>o\<close> and creates no own
  property. (The prototype is not visible to \<open>JSON.stringify\<close>.)
\<close>

definition assignProp :: "jsstring \<Rightarrow> 'a \<Rightarrow> 'a obj \<Rightarrow> 'a obj" where
  "assignProp k v obj = (if k = js ''__proto__'' then obj else ownPut k v obj)"

text \<open>Reading a property of a plain data object: \<open>undefined\<close> when there is none.\<close>

definition getProp :: "jsval obj \<Rightarrow> jsstring \<Rightarrow> jsval" where
  "getProp obj k = (case map_of obj k of None \<Rightarrow> JUndefined | Some v \<Rightarrow> v)"

section \<open>The cookie jar\<close>

text \<open>
  \<open>const cookies = {}\<close> holds one entry \<open>{ value, options }\<close> per cookie name; \<open>options\<close>
  is the attribute object the provider passed, carried as it is.
\<close>

record entry =
  entry_value :: jsstring
  entry_options :: "jsval obj"

type_synonym jar = "entry obj"

section \<open>The generated snippet: what it does in the browser\<close>

text \<open>
  The snippet embeds the jar as an object literal, the text \<open>JSON.stringify\<close> gave for
  it. Evaluating that literal gives an object with the same keys in the same order and
  the same entries, except that an attribute whose value was \<open>undefined\<close> is no longer
  there, which reads as \<open>undefined\<close> all the same. The functions below are therefore
  applied to the jar itself.
\<close>

text \<open>
  The body of the \<open>for ... in\<close> loop of \<open>writeCookies\<close>, from \<open>var entry = cookies[name]\<close>
  to the string assigned to \<open>document.cookie\<close>. Both calls of \<open>encodeURIComponent\<close> may
  raise \<open>URIError\<close>, the name first.
\<close>

definition cookieString :: "jsstring \<Rightarrow> entry \<Rightarrow> js_error + jsstring" where
  "cookieString name entry =
     (let value = entry_value entry;
          options = entry_options entry
      in case encodeURIComponent name of
           Inl e \<Rightarrow> Inl e
         | Inr n \<Rightarrow>
            (case encodeURIComponent value of
               Inl e \<Rightarrow> Inl e
             | Inr v \<Rightarrow>
                 let cookieString = n @ js ''='' @ v;
                     cookieString =
                       (if getProp options (js ''maxAge'') \<noteq> JUndefined
                        then cookieString @ js ''; max-age='' @
                               ToString (getProp options (js ''maxAge''))
                        else cookieString);
                     cookieString =
                       (if ToBoolean (getProp options (js ''path''))
                        then cookieString @ js ''; path='' @ ToString (getProp options (js ''path''))
                        else cookieString);
                     cookieString =
                       (if ToBoolean (getProp options (js ''sameSite''))
                        then cookieString @ js ''; samesite='' @
                               ToString (getProp options (js ''sameSite''))
                        else cookieString)
                 in Inr cookieString))"

text \<open>
  The loop over the own keys of the embedded object. The state is the list of strings
  assigned to \<open>document.cookie\<close> so far; an exception ends the loop and leaves the
  assignments already made in place. \<open>cookies.hasOwnProperty\<close> is the inherited method
  unless the jar itself has an entry of that name, in which case the call raises
  \<open>TypeError\<close>.
\<close>

fun writeCookies_loop ::
  "jar \<Rightarrow> jsstring list \<Rightarrow> jsstring list \<Rightarrow> jsstring list \<times> js_error option" where
  "writeCookies_loop cookies [] document_cookie = (document_cookie, None)"
| "writeCookies_loop cookies (name # names) document_cookie =
     (if map_of cookies (js ''hasOwnProperty'') \<noteq> None then (document_cookie, Some TypeError)
      else
        (case map_of cookies name of
           None \<Rightarrow> (document_cookie, Some TypeError)
         | Some entry \<Rightarrow>
            (case cookieString name entry of
               Inl e \<Rightarrow> (document_cookie, Some e)
             | Inr s \<Rightarrow> writeCookies_loop cookies names (document_cookie @ [s]))))"

definition writeCookies :: "jar \<Rightarrow> jsstring list \<times> js_error option" where
  "writeCookies cookies = writeCookies_loop cookies (map fst cookies) []"

section \<open>The generated snippet: its text\<close>

text \<open>
  \<open>JSON.stringify\<close> without indentation. A string is quoted with the two-character escapes
  for backspace, tab, line feed, form feed, carriage return, the double quote and the
  backslash, and a \<open>u\<close> escape of four lower-case hexadecimal digits for the other control
  characters and for surrogates that are not part of a pair.
\<close>

definition hexDigitLower :: "nat \<Rightarrow> 16 word" where
  "hexDigitLower d = (if d < 10 then 0x30 + of_nat d else 0x61 + of_nat (d - 10))"

definition unicodeEscape :: "16 word \<Rightarrow> jsstring" where
  "unicodeEscape c =
     [0x5C, 0x75, hexDigitLower (unat c div 4096), hexDigitLower (unat c div 256 mod 16),
      hexDigitLower (unat c div 16 mod 16), hexDigitLower (unat c mod 16)]"

definition jsonEscape :: "16 word \<Rightarrow> jsstring" where
  "jsonEscape c =
     (if c = 0x08 then [0x5C, 0x62]
      else if c = 0x09 then [0x5C, 0x74]
      else if c = 0x0A then [0x5C, 0x6E]
      else if c = 0x0C then [0x5C, 0x66]
      else if c = 0x0D then [0x5C, 0x72]
      else if c = 0x22 then [0x5C, 0x22]
      else if c = 0x5C then [0x5C, 0x5C]
      else if c < 0x20 \<or> isLeadSurrogate c \<or> isTrailSurrogate c then unicodeEscape c
      else [c])"

fun jsonChars :: "jsstring \<Rightarrow> jsstring" where
  "jsonChars [] = []"
| "jsonChars [c] = jsonEscape c"
| "jsonChars (c # k # cs) =
     (if isLeadSurrogate c \<and> isTrailSurrogate k then c # k # jsonChars cs
      else jsonEscape c @ jsonChars (k # cs))"

definition QuoteJSONString :: "jsstring \<Rightarrow> jsstring" where
  "QuoteJSONString s = [0x22] @ jsonChars s @ [0x22]"

text \<open>A property whose value is \<open>undefined\<close> is left out of the text.\<close>

fun jsonValue :: "jsval \<Rightarrow> jsstring option" where
  "jsonValue JUndefined = None"
| "jsonValue JNull = Some (js ''null'')"
| "jsonValue (JBool b) = Some (if b then js ''true'' else js ''false'')"
| "jsonValue (JNum n) = Some (numToString n)"
| "jsonValue (JStr s) = Some (QuoteJSONString s)"

fun joinComma :: "jsstring list \<Rightarrow> jsstring" where
  "joinComma [] = []"
| "joinComma [x] = x"
| "joinComma (x # y # xs) = x @ js '','' @ joinComma (y # xs)"

definition jsonObject :: "jsstring list \<Rightarrow> jsstring" where
  "jsonObject members = js ''{'' @ joinComma members @ js ''}''"

definition jsonMember :: "jsstring \<Rightarrow> jsstring \<Rightarrow> jsstring" where
  "jsonMember k text = QuoteJSONString k @ js '':'' @ text"

definition jsonOptions :: "jsval obj \<Rightarrow> jsstring" where
  "jsonOptions opts =
     jsonObject
       (concat (map (\<lambda>(k, v). case jsonValue v of None \<Rightarrow> [] | Some t \<Rightarrow> [jsonMember k t]) opts))"

definition jsonEntry :: "entry \<Rightarrow> jsstring" where
  "jsonEntry e =
     jsonObject [jsonMember (js ''value'') (QuoteJSONString (entry_value e)),
                 jsonMember (js ''options'') (jsonOptions (entry_options e))]"

definition JSON_stringify :: "jar \<Rightarrow> jsstring" where
  "JSON_stringify cookies = jsonObject (map (\<lambda>(name, e). jsonMember name (jsonEntry e)) cookies)"

text \<open>
  The lines of the template literal, before and after the interpolated jar. The literal
  opens with a line break after the back-tick and closes with one before it.
\<close>

fun joinLines :: "string list \<Rightarrow> jsstring" where
  "joinLines [] = []"
| "joinLines [l] = js l"
| "joinLines (l # m # ls) = js l @ [0x0A] @ joinLines (m # ls)"

definition templateHeadLines :: "string list" where
  \<open>templateHeadLines =
     [''(() => {'',
      ''  const cookies = '']\<close>

definition templateTailLines :: "string list" where
  \<open>templateTailLines =
     ['''',
      '''',
      ''  function writeCookies(cookies) {'',
      ''    for (var name in cookies) {'',
      ''      if (!cookies.hasOwnProperty(name)) continue;'',
      '''',
      ''      var entry = cookies[name];'',
      ''      var value = entry.value;'',
      ''      var options = entry.options;'',
      '''',
      ''      var cookieString = encodeURIComponent(name) + "=" + encodeURIComponent(value);'',
      '''',
      ''      if (options.maxAge !== undefined) {'',
      ''        cookieString += "; max-age=" + options.maxAge;'',
      ''      }'',
      '''',
      ''      if (options.path) {'',
      ''        cookieString += "; path=" + options.path;'',
      ''      }'',
      '''',
      ''      if (options.sameSite) {'',
      ''        cookieString += "; samesite=" + options.sameSite;'',
      ''      }'',
      '''',
      ''      document.cookie = cookieString;'',
      ''    }'',
      ''  }'',
      '''',
      ''  writeCookies(cookies)'',
      ''})()'']\<close>

definition templateHead :: jsstring where
  "templateHead = joinLines ('''' # templateHeadLines)"

definition templateTail :: jsstring where
  "templateTail = joinLines (templateTailLines @ [''''])"

text \<open>\<open>String.prototype.trim\<close>: white space and line terminators are removed at both ends.\<close>

definition isWhiteSpace :: "16 word \<Rightarrow> bool" where
  "isWhiteSpace c \<longleftrightarrow>
     c \<in> {0x09, 0x0A, 0x0B, 0x0C, 0x0D, 0x20, 0xA0, 0x1680, 0x2028, 0x2029, 0x202F, 0x205F,
          0x3000, 0xFEFF} \<or> (0x2000 \<le> c \<and> c \<le> 0x200A)"

definition trim :: "jsstring \<Rightarrow> jsstring" where
  "trim s = rev (dropWhile isWhiteSpace (rev (dropWhile isWhiteSpace s)))"

text \<open>The argument of the \<open>console.log\<close> call that prints the snippet.\<close>

definition render :: "jar \<Rightarrow> jsstring" where
  "render cookies = trim (templateHead @ JSON_stringify cookies @ templateTail)"

section \<open>The cookie-capture shim\<close>

text \<open>
  The three handlers given to \<open>createServerClient\<close> as \<open>cookies: { get, set, remove }\<close>.
  Each is a function of the current content of \<open>const cookies\<close>.
\<close>

definition cookies_get :: "jsstring \<Rightarrow> jar \<Rightarrow> jsstring option \<times> jar" where
  "cookies_get name cookies = (None, cookies)"

definition cookies_set :: "jsstring \<Rightarrow> jsstring \<Rightarrow> jsval obj \<Rightarrow> jar \<Rightarrow> jar" where
  "cookies_set name value options cookies =
     assignProp name \<lparr>entry_value = value, entry_options = options\<rparr> cookies"

definition cookies_remove :: "jsstring \<Rightarrow> jsval obj \<Rightarrow> jar \<Rightarrow> jar" where
  "cookies_remove name options cookies = cookies"

text \<open>
  The provider's client library is an external collaborator. What it does during one
  \<open>verifyOtp\<close> call is a finite dialogue with the handlers: it reads a cookie and goes on
  according to the answer, writes one, removes one, or resolves with \<open>{ error }\<close>
  (\<open>None\<close> for a null error). A call that never resolves leaves the command waiting and
  has no value in this type.
\<close>

datatype 'e verifier =
    Resolve "'e option"
  | CallGet jsstring "jsstring option \<Rightarrow> 'e verifier"
  | CallSet jsstring jsstring "jsval obj" "'e verifier"
  | CallRemove jsstring "jsval obj" "'e verifier"

text \<open>\<open>await serverSupabase.auth.verifyOtp(...)\<close>, run against the handlers above.\<close>

primrec verifyOtp :: "'e verifier \<Rightarrow> jar \<Rightarrow> 'e option \<times> jar" where
  "verifyOtp (Resolve error) cookies = (error, cookies)"
| "verifyOtp (CallGet name k) cookies =
     verifyOtp (k (fst (cookies_get name cookies))) (snd (cookies_get name cookies))"
| "verifyOtp (CallSet name value options p) cookies =
     verifyOtp p (cookies_set name value options cookies)"
| "verifyOtp (CallRemove name options p) cookies =
     verifyOtp p (cookies_remove name options cookies)"

text \<open>
  Step 2 of \<open>run\<close> up to the error check: the jar starts empty, the provider verifies, and
  an error ends the program (\<open>Inl\<close>); otherwise the jar goes on to the template.
\<close>

definition captureSession :: "'e verifier \<Rightarrow> 'e + jar" where
  "captureSession p =
     (case verifyOtp p [] of
        (Some error, cookies) \<Rightarrow> Inl error
      | (None, cookies) \<Rightarrow> Inr cookies)"

section \<open>The command\<close>

text \<open>
  \<open>src/main.mjs\<close>. The file \<open>src/unnamed/part_000\<close> is an earlier revision of the same
  command: the same configuration check, handlers and template, without the user check,
  the dry run and the \<open>trim\<close>.
\<close>

record env =
  SUPABASE_URL :: "jsstring option"
  NEXT_PUBLIC_SUPABASE_URL :: "jsstring option"
  SUPABASE_ANON_KEY :: "jsstring option"
  NEXT_PUBLIC_SUPABASE_ANON_KEY :: "jsstring option"
  SUPABASE_SERVICE_ROLE_KEY :: "jsstring option"

record args =
  email :: jsstring
  skip_check :: bool
  dry_run :: bool

text \<open>
  The clients built by \<open>createClient\<close> and \<open>createServerClient\<close>, as functions of what the
  program passes to them. A query answers with an error or with the \<open>id\<close>s of the rows
  found; \<open>generateLink\<close> answers with an error or with the hashed token.
\<close>

record 'e supabase_client =
  select_users :: "jsstring \<Rightarrow> 'e + jsstring list"
  generateLink :: "jsstring \<Rightarrow> 'e + jsstring"

record 'e platform =
  createClient :: "jsstring \<Rightarrow> jsstring \<Rightarrow> 'e supabase_client"
  createServerClient :: "jsstring \<Rightarrow> jsstring \<Rightarrow> jsstring \<Rightarrow> 'e verifier"

datatype request = SelectUsers jsstring | GenerateLink jsstring | VerifyOtp jsstring

text \<open>
  What a run of the command does, in order: lines printed with \<open>console.log\<close>, diagnostics
  printed with \<open>console.error\<close> (a message and, where the source passes one, the error
  object), requests sent to the provider, and the exit status that ends the run: the
  argument of \<open>process.exit\<close>, or 0 when \<open>run\<close> returns.
\<close>

datatype 'e event =
    Stdout jsstring
  | Stderr jsstring "'e option"
  | Request request
  | Exit int

text \<open>An environment variable is a string or undefined; \<open>a || b\<close> and \<open>!a\<close> on such values.\<close>

definition falsy :: "jsstring option \<Rightarrow> bool" where
  "falsy a \<longleftrightarrow> \<not> ToBoolean (case a of None \<Rightarrow> JUndefined | Some s \<Rightarrow> JStr s)"

definition logicalOr :: "jsstring option \<Rightarrow> jsstring option \<Rightarrow> jsstring option" where
  "logicalOr a b = (if falsy a then b else a)"

definition supabase_url :: "env \<Rightarrow> jsstring option" where
  "supabase_url env = logicalOr (SUPABASE_URL env) (NEXT_PUBLIC_SUPABASE_URL env)"

definition supabase_anon_key :: "env \<Rightarrow> jsstring option" where
  "supabase_anon_key env = logicalOr (SUPABASE_ANON_KEY env) (NEXT_PUBLIC_SUPABASE_ANON_KEY env)"

definition service_role_key :: "env \<Rightarrow> jsstring option" where
  "service_role_key env = SUPABASE_SERVICE_ROLE_KEY env"

definition configMessage :: jsstring where
  \<open>configMessage = js (''Please set the SUPABASE_URL, SUPABASE_ANON_KEY, and '' @
     ''SUPABASE_SERVICE_ROLE_KEY environment variables in `.env`.'')\<close>

definition jsSnippetInstructions :: jsstring where
  \<open>jsSnippetInstructions = joinLines
     [''// Please execute this JS snippet above on the site and refresh the page.'',
      ''// You may need to manually clear the cookies in your browser before executing '' @
      ''this snippet if it did not work.'']\<close>

definition verifyErrorMessage :: jsstring where
  "verifyErrorMessage = js ''Error getting cookie from magic link hashed token:''"

definition generateLinkErrorMessage :: jsstring where
  "generateLinkErrorMessage = js ''Error generating magic link:''"

definition userErrorMessage :: jsstring where
  "userErrorMessage = js ''Error checking user existence:''"

definition skipCheckHint :: jsstring where
  \<open>skipCheckHint = js (''If you do not have a `users` table under the public schema with '' @
     ''an `email` column, please use the --skip-check flag to bypass this check.'')\<close>

definition userMissingMessage :: "jsstring \<Rightarrow> jsstring" where
  "userMissingMessage address =
     js ''User with email '' @ address @
     js ('' does not exist. Use --skip-check to bypass this check and let a new '' @
         ''account be created automatically with the given email.'')"

text \<open>Step 2 and the output.\<close>

definition step2 :: "'e platform \<Rightarrow> jsstring \<Rightarrow> jsstring \<Rightarrow> jsstring \<Rightarrow> 'e event list" where
  "step2 platform url anon_key hashed_token =
     Request (VerifyOtp hashed_token) #
     (case captureSession (createServerClient platform url anon_key hashed_token) of
        Inl error \<Rightarrow>
          [Stderr verifyErrorMessage (Some error), Exit 1]
      | Inr cookies \<Rightarrow>
          [Stdout [], Stdout jsSnippetInstructions, Stdout [], Stdout (render cookies),
           Stdout [], Stdout jsSnippetInstructions, Exit 0])"

text \<open>Step 1: the magic link.\<close>

definition step1 ::
  "'e platform \<Rightarrow> 'e supabase_client \<Rightarrow> jsstring \<Rightarrow> jsstring \<Rightarrow> args \<Rightarrow> 'e event list" where
  "step1 platform supabase url anon_key args =
     Request (GenerateLink (email args)) #
     (case generateLink supabase (email args) of
        Inl generateLinkError \<Rightarrow>
          [Stderr generateLinkErrorMessage (Some generateLinkError), Exit 1]
      | Inr hashed_token \<Rightarrow> step2 platform url anon_key hashed_token)"

text \<open>Step 0: the user check, unless skipped. The result says whether the run goes on.\<close>

definition step0 :: "'e supabase_client \<Rightarrow> args \<Rightarrow> 'e event list \<times> bool" where
  "step0 supabase args =
     (if \<not> skip_check args then
        (case select_users supabase (email args) of
           Inl userError \<Rightarrow>
             ([Request (SelectUsers (email args)),
               Stderr userErrorMessage (Some userError),
               Stderr skipCheckHint None,
               Exit 1], False)
         | Inr [] \<Rightarrow>
             ([Request (SelectUsers (email args)),
               Stderr (userMissingMessage (email args)) None,
               Exit 1], False)
         | Inr (user_id # others) \<Rightarrow>
             ([Request (SelectUsers (email args)),
               Stdout (js ''// Email: '' @ email args),
               Stdout (js ''// User ID: '' @ user_id)], True))
      else ([], True))"

definition run :: "'e platform \<Rightarrow> env \<Rightarrow> args \<Rightarrow> 'e event list" where
  "run platform env args =
     (if falsy (supabase_url env) \<or> falsy (supabase_anon_key env) \<or> falsy (service_role_key env)
      then [Stderr configMessage None, Exit 1]
      else
        (case (supabase_url env, supabase_anon_key env, service_role_key env) of
           (Some url, Some anon_key, Some role_key) \<Rightarrow>
             (let supabase = createClient platform url role_key;
                  (checked, continue) = step0 supabase args
              in if \<not> continue then checked
                 else if dry_run args then checked @ [Exit 0]
                 else checked @ step1 platform supabase url anon_key args)
         | _ \<Rightarrow> [Stderr configMessage None, Exit 1]))"

section \<open>Observations of a verification call\<close>

text \<open>
  The dialogue of one \<open>verifyOtp\<close> call, recorded: \<open>readLog\<close> lists the names the provider
  read with the answers the handler gave, \<open>writeLog\<close> lists the entries it wrote, both in
  the order of the calls.
\<close>

primrec readLog :: "'e verifier \<Rightarrow> jar \<Rightarrow> (jsstring \<times> jsstring option) list" where
  "readLog (Resolve error) cookies = []"
| "readLog (CallGet name k) cookies =
     (name, fst (cookies_get name cookies)) #
     readLog (k (fst (cookies_get name cookies))) (snd (cookies_get name cookies))"
| "readLog (CallSet name value options p) cookies =
     readLog p (cookies_set name value options cookies)"
| "readLog (CallRemove name options p) cookies =
     readLog p (cookies_remove name options cookies)"

primrec writeLog :: "'e verifier \<Rightarrow> jar \<Rightarrow> (jsstring \<times> entry) list" where
  "writeLog (Resolve error) cookies = []"
| "writeLog (CallGet name k) cookies =
     writeLog (k (fst (cookies_get name cookies))) (snd (cookies_get name cookies))"
| "writeLog (CallSet name value options p) cookies =
     (name, \<lparr>entry_value = value, entry_options = options\<rparr>) #
     writeLog p (cookies_set name value options cookies)"
| "writeLog (CallRemove name options p) cookies =
     writeLog p (cookies_remove name options cookies)"

section \<open>The assignment string as the specification words it\<close>

text \<open>
  The data model types the attributes the emitter understands: \<open>maxAge\<close> is a number,
  \<open>path\<close> and \<open>sameSite\<close> are strings, each possibly absent. Any further attribute may
  have any value.
\<close>

definition isNumberOrAbsent :: "jsval \<Rightarrow> bool" where
  "isNumberOrAbsent v = (case v of JUndefined \<Rightarrow> True | JNum n \<Rightarrow> True | _ \<Rightarrow> False)"

definition isStringOrAbsent :: "jsval \<Rightarrow> bool" where
  "isStringOrAbsent v = (case v of JUndefined \<Rightarrow> True | JStr s \<Rightarrow> True | _ \<Rightarrow> False)"

definition typedAttributes :: "jsval obj \<Rightarrow> bool" where
  "typedAttributes options \<longleftrightarrow>
     isNumberOrAbsent (getProp options (js ''maxAge'')) \<and>
     isStringOrAbsent (getProp options (js ''path'')) \<and>
     isStringOrAbsent (getProp options (js ''sameSite''))"

text \<open>
  The three optional parts: \<open>; max-age=n\<close> when a max-age is defined (zero included),
  \<open>; path=p\<close> when the path is a non-empty string, \<open>; samesite=s\<close> when the same-site
  policy is a non-empty string.
\<close>

definition maxAgeAttribute :: "jsval \<Rightarrow> jsstring" where
  "maxAgeAttribute v = (case v of JNum n \<Rightarrow> js ''; max-age='' @ numToString n | _ \<Rightarrow> [])"

definition pathAttribute :: "jsval \<Rightarrow> jsstring" where
  "pathAttribute v = (case v of JStr p \<Rightarrow> if p = [] then [] else js ''; path='' @ p | _ \<Rightarrow> [])"

definition sameSiteAttribute :: "jsval \<Rightarrow> jsstring" where
  "sameSiteAttribute v =
     (case v of JStr s \<Rightarrow> if s = [] then [] else js ''; samesite='' @ s | _ \<Rightarrow> [])"

text \<open>
  \<open>percentEncode(name) + "=" + percentEncode(value)\<close> followed by the parts that are
  present, in this order; \<open>percentEncode\<close> is \<open>encodeURIComponent\<close>, whose error is the
  error of the whole.
\<close>

definition assignment :: "jsstring \<Rightarrow> entry \<Rightarrow> js_error + jsstring" where
  "assignment name e =
     (case encodeURIComponent name of
        Inl err \<Rightarrow> Inl err
      | Inr n \<Rightarrow>
         (case encodeURIComponent (entry_value e) of
            Inl err \<Rightarrow> Inl err
          | Inr v \<Rightarrow>
              Inr (n @ js ''='' @ v @
                   maxAgeAttribute (getProp (entry_options e) (js ''maxAge'')) @
                   pathAttribute (getProp (entry_options e) (js ''path'')) @
                   sameSiteAttribute (getProp (entry_options e) (js ''sameSite'')))))"

section \<open>Configuration values that are set\<close>

text \<open>
  The source tests the configuration with \<open>||\<close> and \<open>!\<close>, for which an empty string is as
  good as no value: a variable is set when it holds a non-empty string.
\<close>

definition isSet :: "jsstring option \<Rightarrow> bool" where
  "isSet a = (case a of None \<Rightarrow> False | Some s \<Rightarrow> s \<noteq> [])"

text \<open>Stub collaborators for the concrete runs below: one user, one token, a verifier.\<close>

definition stubPlatform :: "jsstring list \<Rightarrow> jsstring \<Rightarrow> 'e verifier \<Rightarrow> 'e platform" where
  "stubPlatform ids token p =
     \<lparr>createClient = (\<lambda>url key. \<lparr>select_users = (\<lambda>address. Inr ids),
                                    generateLink = (\<lambda>address. Inr token)\<rparr>),
      createServerClient = (\<lambda>url key hashed_token. p)\<rparr>"

definition stubEnv :: env where
  "stubEnv =
     \<lparr>SUPABASE_URL = Some (js ''http://localhost:54321''), NEXT_PUBLIC_SUPABASE_URL = None,
      SUPABASE_ANON_KEY = Some (js ''anon''), NEXT_PUBLIC_SUPABASE_ANON_KEY = None,
      SUPABASE_SERVICE_ROLE_KEY = Some (js ''service'')\<rparr>"

definition stubArgs :: args where
  "stubArgs = \<lparr>email = js ''user@example.com'', skip_check = False, dry_run = False\<rparr>"

section \<open>Observations of a run\<close>

text \<open>The lines a run prints on the output stream, in order.\<close>

fun stdout_of :: "'e event list \<Rightarrow> jsstring list" where
  "stdout_of [] = []"
| "stdout_of (Stdout s # evs) = s # stdout_of evs"
| "stdout_of (ev # evs) = stdout_of evs"

section \<open>Order and well-formedness of own keys\<close>

text \<open>
  The order of first insertion of a sequence of names, after the names already present.
  A plain name is one that is neither an array index nor \<open>__proto__\<close>.
\<close>

definition insertionOrder :: "jsstring list \<Rightarrow> jsstring list \<Rightarrow> jsstring list" where
  "insertionOrder present names = foldl (\<lambda>acc n. if n \<in> set acc then acc else acc @ [n]) present names"

definition plainName :: "jsstring \<Rightarrow> bool" where
  "plainName n \<longleftrightarrow> arrayIndex n = None \<and> n \<noteq> js ''__proto__''"

text \<open>
  The keys of an object built by assignments: no key occurs twice, and no key stands
  after one it should be enumerated before.
\<close>

fun wfKeys :: "jsstring list \<Rightarrow> bool" where
  "wfKeys [] = True"
| "wfKeys (k # ks) = (k \<notin> set ks \<and> (\<forall>k' \<in> set ks. \<not> keyBefore k' k) \<and> wfKeys ks)"

section \<open>The end-to-end scenario of the specification\<close>

text \<open>
  The address \<open>user@example.com\<close>, an issuer that answers it with the token \<open>tok_1\<close>,
  and a verifier that, given \<open>tok_1\<close>, writes cookie \<open>A\<close> with value \<open>1\<close> and then cookie
  \<open>B\<close> with value \<open>2\<close> and path \<open>/app\<close>. The user check is skipped.
\<close>

definition scenarioVerifier :: "jsstring \<Rightarrow> jsstring verifier" where
  "scenarioVerifier token =
     (if token = js ''tok_1''
      then CallSet (js ''A'') (js ''1'') []
             (CallSet (js ''B'') (js ''2'') [(js ''path'', JStr (js ''/app''))] (Resolve None))
      else Resolve (Some (js ''invalid token'')))"

definition scenarioPlatform :: "jsstring platform" where
  "scenarioPlatform =
     \<lparr>createClient = (\<lambda>url key.
        \<lparr>select_users = (\<lambda>address. Inr []),
         generateLink = (\<lambda>address. if address = js ''user@example.com''
                                     then Inr (js ''tok_1'') else Inl (js ''unknown address''))\<rparr>),
      createServerClient = (\<lambda>url key. scenarioVerifier)\<rparr>"

definition scenarioArgs :: args where
  "scenarioArgs = \<lparr>email = js ''user@example.com'', skip_check = True, dry_run = False\<rparr>"

definition scenarioJar :: jar where
  "scenarioJar =
     [(js ''A'', \<lparr>entry_value = js ''1'', entry_options = []\<rparr>),
      (js ''B'', \<lparr>entry_value = js ''2'', entry_options = [(js ''path'', JStr (js ''/app''))]\<rparr>)]"

section \<open>The null request context\<close>

text \<open>
  C8. The handler for clearing a cookie takes any name and any attribute object, returns
  normally and leaves the jar as it was; a provider that clears a cookie during
  verification gets the same outcome as one that does not.
\<close>

theorem remove_is_noop:
  "cookies_remove name options cookies = cookies \<and>
   verifyOtp (CallRemove name options p) cookies = verifyOtp p cookies \<and>
   captureSession (CallRemove name options p) = captureSession p"
  by (simp add: cookies_remove_def captureSession_def)

lemma readLog_absent:
  "map snd (readLog p cookies) = replicate (length (readLog p cookies)) None"
  by (induction p arbitrary: cookies) (simp_all add: cookies_get_def)

text \<open>
  C4. Reading a cookie answers absent for every name and every content of the jar, and
  does not change the jar; in particular a name just written reads as absent. Over a
  whole verification call, started from any jar, every answer in the record of reads is
  absent, so the call proceeds as if each read had been answered absent outright.
\<close>

theorem read_always_absent:
  "cookies_get name cookies = (None, cookies) \<and>
   fst (cookies_get name (cookies_set name value options cookies)) = None \<and>
   map snd (readLog p cookies) = replicate (length (readLog p cookies)) None \<and>
   verifyOtp (CallGet name k) cookies = verifyOtp (k None) cookies"
  by (simp add: cookies_get_def readLog_absent)

section \<open>The per-cookie assignment string\<close>

lemmas string_eval =
  js_def Let_def getProp_def uriUnreserved_def isTrailSurrogate_def isLeadSurrogate_def
  pctEscape_def pctOctet_def utf8_def hexDigit_def numToString_def natToString.simps

lemma maxAge_step:
  "isNumberOrAbsent v \<Longrightarrow>
   (if v \<noteq> JUndefined then s @ js ''; max-age='' @ ToString v else s) = s @ maxAgeAttribute v"
  by (cases v) (simp_all add: isNumberOrAbsent_def maxAgeAttribute_def)

lemma path_step:
  "isStringOrAbsent v \<Longrightarrow>
   (if ToBoolean v then s @ js ''; path='' @ ToString v else s) = s @ pathAttribute v"
  by (cases v) (simp_all add: isStringOrAbsent_def pathAttribute_def)

lemma sameSite_step:
  "isStringOrAbsent v \<Longrightarrow>
   (if ToBoolean v then s @ js ''; samesite='' @ ToString v else s) = s @ sameSiteAttribute v"
  by (cases v) (simp_all add: isStringOrAbsent_def sameSiteAttribute_def)

lemma cookieString_typed:
  "typedAttributes (entry_options e) \<Longrightarrow> cookieString name e = assignment name e"
  by (simp add: cookieString_def assignment_def typedAttributes_def Let_def
        maxAge_step path_step sameSite_step split: sum.splits)

lemma getProp_Cons: "getProp ((k, v) # obj) k' = (if k' = k then v else getProp obj k')"
  by (simp add: getProp_def)

lemma cookieString_other_attribute:
  "k \<notin> {js ''maxAge'', js ''path'', js ''sameSite''} \<Longrightarrow>
   cookieString name (e\<lparr>entry_options := (k, v) # entry_options e\<rparr>) = cookieString name e"
  by (auto simp add: cookieString_def Let_def getProp_Cons split: sum.splits)

lemma cookieString_access_token:
  "cookieString (js ''sb-access-token'')
     \<lparr>entry_value = js ''abc123'',
      entry_options = [(js ''maxAge'', JNum 3600), (js ''path'', JStr (js ''/'')),
                       (js ''sameSite'', JStr (js ''lax''))]\<rparr> =
   Inr (js ''sb-access-token=abc123; max-age=3600; path=/; samesite=lax'')"
  by (simp add: cookieString_def string_eval)

lemma cookieString_max_age_zero:
  "cookieString (js ''sid'') \<lparr>entry_value = js ''x'', entry_options = [(js ''maxAge'', JNum 0)]\<rparr> =
   Inr (js ''sid=x; max-age=0'')"
  by (simp add: cookieString_def string_eval)

text \<open>
  C2. For an entry whose attributes are typed as in the data model, the string assigned
  to \<open>document.cookie\<close> is the encoded name, \<open>=\<close>, the encoded value, then \<open>; max-age=n\<close>
  when max-age is defined (zero included), \<open>; path=p\<close> when the path is non-empty and
  \<open>; samesite=s\<close> when the same-site policy is non-empty, in this order. An attribute
  under any other key (domain, secure, httpOnly) leaves the string as it is. The entry
  \<open>sb-access-token\<close> of the specification gives
  \<open>sb-access-token=abc123; max-age=3600; path=/; samesite=lax\<close>, and a max-age of zero is
  written out.
\<close>

theorem cookie_assignment_string:
  "(typedAttributes (entry_options e) \<longrightarrow> cookieString name e = assignment name e) \<and>
   (k \<notin> {js ''maxAge'', js ''path'', js ''sameSite''} \<longrightarrow>
      cookieString name (e\<lparr>entry_options := (k, v) # entry_options e\<rparr>) = cookieString name e) \<and>
   cookieString (js ''sb-access-token'')
     \<lparr>entry_value = js ''abc123'',
      entry_options = [(js ''maxAge'', JNum 3600), (js ''path'', JStr (js ''/'')),
                       (js ''sameSite'', JStr (js ''lax''))]\<rparr> =
     Inr (js ''sb-access-token=abc123; max-age=3600; path=/; samesite=lax'') \<and>
   cookieString (js ''sid'') \<lparr>entry_value = js ''x'', entry_options = [(js ''maxAge'', JNum 0)]\<rparr> =
     Inr (js ''sid=x; max-age=0'')"
  using cookieString_typed cookieString_other_attribute cookieString_access_token
    cookieString_max_age_zero
  by blast

theorem cookie_assignment_string_witness:
  "typedAttributes [(js ''maxAge'', JNum 0), (js ''path'', JStr [])] \<and>
   cookieString (js ''a b'')
     \<lparr>entry_value = js ''x;y'',
      entry_options = [(js ''maxAge'', JNum 0), (js ''path'', JStr [])]\<rparr> =
     Inr (js ''a%20b=x%3By; max-age=0'') \<and>
   js ''domain'' \<notin> {js ''maxAge'', js ''path'', js ''sameSite''} \<and>
   cookieString (js ''a b'')
     \<lparr>entry_value = js ''x;y'',
      entry_options = [(js ''domain'', JStr (js ''example.com'')), (js ''maxAge'', JNum 0),
                       (js ''path'', JStr [])]\<rparr> =
     Inr (js ''a%20b=x%3By; max-age=0'')"
proof -
  let ?e = "\<lparr>entry_value = js ''x;y'',
             entry_options = [(js ''maxAge'', JNum 0), (js ''path'', JStr [])]\<rparr>"
  have typed: "typedAttributes (entry_options ?e)"
    by (simp add: typedAttributes_def isNumberOrAbsent_def isStringOrAbsent_def getProp_def js_def)
  have other: "js ''domain'' \<notin> {js ''maxAge'', js ''path'', js ''sameSite''}"
    by (simp add: js_def)
  have spec: "assignment (js ''a b'') ?e = Inr (js ''a%20b=x%3By; max-age=0'')"
    by (simp add: assignment_def maxAgeAttribute_def pathAttribute_def sameSiteAttribute_def
          string_eval)
  from cookie_assignment_string
         [of ?e "js ''a b''" "js ''domain''" "JStr (js ''example.com'')"] typed other spec
  show ?thesis by simp
qed

section \<open>Configuration\<close>

lemma falsy_iff: "falsy a \<longleftrightarrow> \<not> isSet a"
  by (cases a) (simp_all add: falsy_def isSet_def)

lemma isSet_logicalOr: "isSet (logicalOr a b) \<longleftrightarrow> isSet a \<or> isSet b"
  by (simp add: logicalOr_def falsy_iff)

lemma logicalOr_first: "isSet a \<Longrightarrow> logicalOr a b = a"
  by (simp add: logicalOr_def falsy_iff)

lemma logicalOr_second: "\<not> isSet a \<Longrightarrow> logicalOr a b = b"
  by (simp add: logicalOr_def falsy_iff)

lemma run_config_error:
  "\<not> isSet (supabase_url env) \<or> \<not> isSet (supabase_anon_key env) \<or>
   \<not> isSet (service_role_key env) \<Longrightarrow>
   run platform env args = [Stderr configMessage None, Exit 1]"
  by (auto simp add: run_def falsy_iff)

lemma step0_cases:
  "step0 supabase args = ([], True) \<or>
   (\<exists>rest c. step0 supabase args = (Request (SelectUsers (email args)) # rest, c))"
  by (auto simp add: step0_def split: sum.splits list.splits)

lemma run_ok_first:
  assumes "isSet (supabase_url env)" "isSet (supabase_anon_key env)"
    "isSet (service_role_key env)"
  shows "hd (run platform env args) \<noteq> Stderr configMessage None"
proof -
  from assms obtain url anon_key role_key where
    c: "supabase_url env = Some url" "supabase_anon_key env = Some anon_key"
       "service_role_key env = Some role_key"
    by (auto simp add: isSet_def split: option.splits)
  from step0_cases[of "createClient platform url role_key" args] c assms show ?thesis
    by (auto simp add: run_def falsy_iff step1_def split: if_splits)
qed

lemma run_config_iff:
  "run platform env args = [Stderr configMessage None, Exit 1] \<longleftrightarrow>
     \<not> ((isSet (SUPABASE_URL env) \<or> isSet (NEXT_PUBLIC_SUPABASE_URL env)) \<and>
        (isSet (SUPABASE_ANON_KEY env) \<or> isSet (NEXT_PUBLIC_SUPABASE_ANON_KEY env)) \<and>
        isSet (SUPABASE_SERVICE_ROLE_KEY env))"
proof (cases "isSet (supabase_url env) \<and> isSet (supabase_anon_key env) \<and>
              isSet (service_role_key env)")
  case True
  with run_ok_first[of env platform args]
  have "run platform env args \<noteq> [Stderr configMessage None, Exit 1]" by auto
  with True show ?thesis
    by (simp add: supabase_url_def supabase_anon_key_def service_role_key_def isSet_logicalOr)
next
  case False
  with run_config_error[of env platform args]
  have "run platform env args = [Stderr configMessage None, Exit 1]" by blast
  with False show ?thesis
    by (simp add: supabase_url_def supabase_anon_key_def service_role_key_def isSet_logicalOr)
qed

text \<open>
  C9. When the base URL is set under neither of its names, or the anonymous key under
  neither of its names, or the service-role key is not set, the whole run is: one
  diagnostic on the error stream, then exit status 1. No request is sent and nothing is
  printed on the output stream.
\<close>

theorem missing_configuration_is_fatal:
  assumes "\<not> (isSet (SUPABASE_URL env) \<or> isSet (NEXT_PUBLIC_SUPABASE_URL env)) \<or>
           \<not> (isSet (SUPABASE_ANON_KEY env) \<or> isSet (NEXT_PUBLIC_SUPABASE_ANON_KEY env)) \<or>
           \<not> isSet (SUPABASE_SERVICE_ROLE_KEY env)"
  shows "run platform env args = [Stderr configMessage None, Exit 1]"
  using assms by (simp add: run_config_iff)

theorem missing_configuration_is_fatal_witness:
  "\<not> isSet (SUPABASE_SERVICE_ROLE_KEY
       \<lparr>SUPABASE_URL = Some (js ''http://localhost''), NEXT_PUBLIC_SUPABASE_URL = None,
        SUPABASE_ANON_KEY = None, NEXT_PUBLIC_SUPABASE_ANON_KEY = Some (js ''anon''),
        SUPABASE_SERVICE_ROLE_KEY = None\<rparr>) \<and>
   run (stubPlatform [js ''7''] (js ''tok_1'') (Resolve (None :: unit option)))
       \<lparr>SUPABASE_URL = Some (js ''http://localhost''), NEXT_PUBLIC_SUPABASE_URL = None,
        SUPABASE_ANON_KEY = None, NEXT_PUBLIC_SUPABASE_ANON_KEY = Some (js ''anon''),
        SUPABASE_SERVICE_ROLE_KEY = None\<rparr>
       \<lparr>email = js ''user@example.com'', skip_check = False, dry_run = False\<rparr> =
     [Stderr configMessage None, Exit 1]"
proof -
  let ?env = "\<lparr>SUPABASE_URL = Some (js ''http://localhost''), NEXT_PUBLIC_SUPABASE_URL = None,
               SUPABASE_ANON_KEY = None, NEXT_PUBLIC_SUPABASE_ANON_KEY = Some (js ''anon''),
               SUPABASE_SERVICE_ROLE_KEY = None\<rparr>"
  have unset: "\<not> isSet (SUPABASE_SERVICE_ROLE_KEY ?env)"
    by (simp add: isSet_def)
  from missing_configuration_is_fatal
         [of ?env "stubPlatform [js ''7''] (js ''tok_1'') (Resolve (None :: unit option))"
             "\<lparr>email = js ''user@example.com'', skip_check = False, dry_run = False\<rparr>"]
       unset
  show ?thesis by simp
qed

text \<open>
  C10. The base URL is \<open>SUPABASE_URL\<close> when that is set, whatever the other name holds,
  and \<open>NEXT_PUBLIC_SUPABASE_URL\<close> otherwise; the anonymous key likewise from
  \<open>SUPABASE_ANON_KEY\<close> and \<open>NEXT_PUBLIC_SUPABASE_ANON_KEY\<close>. The service-role key is read
  from \<open>SUPABASE_SERVICE_ROLE_KEY\<close> alone. The run reports missing configuration exactly
  when the URL is set under neither name, or the anonymous key under neither name, or
  the service-role key is not set.
\<close>

theorem configuration_fallback_names:
  "(isSet (SUPABASE_URL env) \<longrightarrow> supabase_url env = SUPABASE_URL env) \<and>
   (\<not> isSet (SUPABASE_URL env) \<longrightarrow> supabase_url env = NEXT_PUBLIC_SUPABASE_URL env) \<and>
   (isSet (SUPABASE_ANON_KEY env) \<longrightarrow> supabase_anon_key env = SUPABASE_ANON_KEY env) \<and>
   (\<not> isSet (SUPABASE_ANON_KEY env) \<longrightarrow>
      supabase_anon_key env = NEXT_PUBLIC_SUPABASE_ANON_KEY env) \<and>
   service_role_key env = SUPABASE_SERVICE_ROLE_KEY env \<and>
   (run platform env args = [Stderr configMessage None, Exit 1] \<longleftrightarrow>
      \<not> ((isSet (SUPABASE_URL env) \<or> isSet (NEXT_PUBLIC_SUPABASE_URL env)) \<and>
         (isSet (SUPABASE_ANON_KEY env) \<or> isSet (NEXT_PUBLIC_SUPABASE_ANON_KEY env)) \<and>
         isSet (SUPABASE_SERVICE_ROLE_KEY env)))"
  by (simp add: supabase_url_def supabase_anon_key_def service_role_key_def logicalOr_first
        logicalOr_second run_config_iff)

theorem configuration_fallback_names_witness:
  "isSet (Some (js ''https://a.example'')) \<and> \<not> isSet None \<and>
   supabase_url
     \<lparr>SUPABASE_URL = Some (js ''https://a.example''),
      NEXT_PUBLIC_SUPABASE_URL = Some (js ''https://b.example''),
      SUPABASE_ANON_KEY = None, NEXT_PUBLIC_SUPABASE_ANON_KEY = Some (js ''anon''),
      SUPABASE_SERVICE_ROLE_KEY = Some (js ''role'')\<rparr> = Some (js ''https://a.example'') \<and>
   supabase_anon_key
     \<lparr>SUPABASE_URL = Some (js ''https://a.example''),
      NEXT_PUBLIC_SUPABASE_URL = Some (js ''https://b.example''),
      SUPABASE_ANON_KEY = None, NEXT_PUBLIC_SUPABASE_ANON_KEY = Some (js ''anon''),
      SUPABASE_SERVICE_ROLE_KEY = Some (js ''role'')\<rparr> = Some (js ''anon'') \<and>
   supabase_url
     \<lparr>SUPABASE_URL = None, NEXT_PUBLIC_SUPABASE_URL = Some (js ''https://b.example''),
      SUPABASE_ANON_KEY = Some (js ''key''), NEXT_PUBLIC_SUPABASE_ANON_KEY = Some (js ''anon''),
      SUPABASE_SERVICE_ROLE_KEY = Some (js ''role'')\<rparr> = Some (js ''https://b.example'') \<and>
   supabase_anon_key
     \<lparr>SUPABASE_URL = None, NEXT_PUBLIC_SUPABASE_URL = Some (js ''https://b.example''),
      SUPABASE_ANON_KEY = Some (js ''key''), NEXT_PUBLIC_SUPABASE_ANON_KEY = Some (js ''anon''),
      SUPABASE_SERVICE_ROLE_KEY = Some (js ''role'')\<rparr> = Some (js ''key'')"
proof -
  let ?env1 = "\<lparr>SUPABASE_URL = Some (js ''https://a.example''),
      NEXT_PUBLIC_SUPABASE_URL = Some (js ''https://b.example''),
      SUPABASE_ANON_KEY = None, NEXT_PUBLIC_SUPABASE_ANON_KEY = Some (js ''anon''),
      SUPABASE_SERVICE_ROLE_KEY = Some (js ''role'')\<rparr>"
  let ?env2 = "\<lparr>SUPABASE_URL = None, NEXT_PUBLIC_SUPABASE_URL = Some (js ''https://b.example''),
      SUPABASE_ANON_KEY = Some (js ''key''), NEXT_PUBLIC_SUPABASE_ANON_KEY = Some (js ''anon''),
      SUPABASE_SERVICE_ROLE_KEY = Some (js ''role'')\<rparr>"
  have s1: "isSet (Some (js ''https://a.example''))" and s2: "\<not> isSet None"
    and s3: "isSet (Some (js ''key''))"
    by (simp_all add: isSet_def js_def)
  let ?platform = "stubPlatform [js ''7''] (js ''tok_1'') (Resolve (None :: unit option))"
  let ?args = "\<lparr>email = js ''user@example.com'', skip_check = False, dry_run = False\<rparr>"
  from configuration_fallback_names[of ?env1 ?platform ?args]
       configuration_fallback_names[of ?env2 ?platform ?args] s1 s2 s3
  show ?thesis by simp
qed

section \<open>The text of the snippet\<close>

lemma joinLines_snoc_empty: "ls \<noteq> [] \<Longrightarrow> joinLines (ls @ ['''']) = joinLines ls @ [0x0A]"
  by (induction ls rule: joinLines.induct) (simp_all add: js_def)

lemma joinLines_nonempty: "ls \<noteq> [] \<Longrightarrow> last ls \<noteq> [] \<Longrightarrow> joinLines ls \<noteq> []"
  by (induction ls rule: joinLines.induct) (simp_all add: js_def)

lemma last_joinLines:
  "ls \<noteq> [] \<Longrightarrow> last ls \<noteq> [] \<Longrightarrow> last (joinLines ls) = of_nat (of_char (last (last ls)))"
proof (induction ls rule: joinLines.induct)
  case 1
  then show ?case by simp
next
  case (2 l)
  then show ?case by (simp add: js_def last_map)
next
  case (3 l m ls)
  from "3.prems" have "last (m # ls) \<noteq> []" by simp
  with joinLines_nonempty[of "m # ls"] "3.IH" show ?case by simp
qed

lemma trim_core:
  assumes "h \<noteq> []" "\<not> isWhiteSpace (hd h)" "t \<noteq> []" "\<not> isWhiteSpace (last t)"
  shows "trim (0x0A # h @ m @ t @ [0x0A]) = h @ m @ t"
proof -
  have ws: "isWhiteSpace 0x0A" by (simp add: isWhiteSpace_def)
  from assms(1,2) have front: "dropWhile isWhiteSpace (h @ m @ t @ [0x0A]) = h @ m @ t @ [0x0A]"
    by (cases h) simp_all
  from assms(3,4) have rear: "dropWhile isWhiteSpace (rev t @ rev m @ rev h) = rev t @ rev m @ rev h"
    by (cases t rule: rev_cases) simp_all
  show ?thesis
    using ws front rear by (simp add: trim_def)
qed

lemma head_shape:
  "joinLines templateHeadLines \<noteq> [] \<and> hd (joinLines templateHeadLines) = 0x28"
  by (simp add: templateHeadLines_def js_def)

lemma tail_shape:
  "joinLines templateTailLines \<noteq> [] \<and> last (joinLines templateTailLines) = 0x29"
  by (simp add: templateTailLines_def joinLines_nonempty last_joinLines del: joinLines.simps)

lemma render_frame:
  "render cookies =
     joinLines templateHeadLines @ JSON_stringify cookies @ joinLines templateTailLines"
proof -
  have a: "\<not> isWhiteSpace (hd (joinLines templateHeadLines))"
          "\<not> isWhiteSpace (last (joinLines templateTailLines))"
    using head_shape tail_shape by (simp_all add: isWhiteSpace_def)
  have h: "templateHead = 0x0A # joinLines templateHeadLines"
    by (simp add: templateHead_def templateHeadLines_def js_def)
  have "templateTailLines \<noteq> []"
    by (simp add: templateTailLines_def)
  then have t: "templateTail = joinLines templateTailLines @ [0x0A]"
    by (simp add: templateTail_def joinLines_snoc_empty)
  have "render cookies =
          trim (0x0A # joinLines templateHeadLines @ JSON_stringify cookies @
                joinLines templateTailLines @ [0x0A])"
    by (simp add: render_def h t)
  also have "\<dots> = joinLines templateHeadLines @ JSON_stringify cookies @ joinLines templateTailLines"
    using trim_core[OF _ a(1) _ a(2)] head_shape tail_shape by blast
  finally show ?thesis .
qed

lemma JSON_stringify_empty: \<open>JSON_stringify [] = js ''{}''\<close>
  by (simp add: JSON_stringify_def jsonObject_def js_def)

lemma writeCookies_empty: "writeCookies [] = ([], None)"
  by (simp add: writeCookies_def)

lemma render_hd: "hd (render cookies) = 0x28"
  using head_shape by (simp add: render_frame)


lemma step2_success:
  "captureSession (createServerClient platform url anon_key token) = Inr cookies \<Longrightarrow>
   step2 platform url anon_key token =
     [Request (VerifyOtp token), Stdout [], Stdout jsSnippetInstructions, Stdout [],
      Stdout (render cookies), Stdout [], Stdout jsSnippetInstructions, Exit 0]"
  by (simp add: step2_def)

lemma step2_failure:
  "captureSession (createServerClient platform url anon_key token) = Inl error \<Longrightarrow>
   step2 platform url anon_key token =
     [Request (VerifyOtp token), Stderr verifyErrorMessage (Some error), Exit 1]"
  by (simp add: step2_def)

lemma captureSession_error:
  "fst (verifyOtp p []) = Some error \<Longrightarrow> captureSession p = Inl error"
  by (cases "verifyOtp p []") (simp add: captureSession_def)

lemma render_not_comment: "render cookies = s \<Longrightarrow> hd s = 0x28"
  using render_hd[of cookies] by auto

lemma step0_no_snippet: "Stdout (render cookies) \<notin> set (fst (step0 supabase args))"
proof -
  have "render cookies \<noteq> js ''// Email: '' @ x" for x
    using render_not_comment[of cookies "js ''// Email: '' @ x"] by (auto simp add: js_def)
  moreover have "render cookies \<noteq> js ''// User ID: '' @ x" for x
    using render_not_comment[of cookies "js ''// User ID: '' @ x"] by (auto simp add: js_def)
  ultimately show ?thesis
    by (auto simp add: step0_def split: sum.splits list.splits)
qed

lemma step1_cases:
  "(\<exists>e. step1 platform supabase url anon_key args =
          [Request (GenerateLink (email args)), Stderr generateLinkErrorMessage (Some e), Exit 1]) \<or>
   (\<exists>token. step1 platform supabase url anon_key args =
          Request (GenerateLink (email args)) # step2 platform url anon_key token)"
  by (auto simp add: step1_def split: sum.splits)

lemma step2_cases:
  "(\<exists>e. captureSession (createServerClient platform url anon_key token) = Inl e) \<or>
   (\<exists>c. captureSession (createServerClient platform url anon_key token) = Inr c)"
  by (cases "captureSession (createServerClient platform url anon_key token)") auto

lemma run_snippet_complete:
  assumes "Stdout (render cookies) \<in> set (run platform env args)"
  shows "\<exists>url anon_key token c pre.
           captureSession (createServerClient platform url anon_key token) = Inr c \<and>
           run platform env args = pre @ step2 platform url anon_key token \<and>
           step2 platform url anon_key token =
             [Request (VerifyOtp token), Stdout [], Stdout jsSnippetInstructions, Stdout [],
              Stdout (render c), Stdout [], Stdout jsSnippetInstructions, Exit 0]"
proof (cases "falsy (supabase_url env) \<or> falsy (supabase_anon_key env) \<or> falsy (service_role_key env)")
  case True
  with assms show ?thesis by (simp add: run_def)
next
  case False
  then obtain url anon_key role_key where
    c: "supabase_url env = Some url" "supabase_anon_key env = Some anon_key"
       "service_role_key env = Some role_key"
    by (auto simp add: falsy_def split: option.splits)
  let ?supabase = "createClient platform url role_key"
  obtain checked continue where s0: "step0 ?supabase args = (checked, continue)"
    by (cases "step0 ?supabase args")
  from step0_no_snippet[of cookies ?supabase args] s0
  have nc: "Stdout (render cookies) \<notin> set checked" by simp
  from False c s0 have r: "run platform env args =
      (if \<not> continue then checked else if dry_run args then checked @ [Exit 0]
       else checked @ step1 platform ?supabase url anon_key args)"
    by (simp add: run_def)
  with assms nc have go: "continue" "\<not> dry_run args"
     and in1: "Stdout (render cookies) \<in> set (step1 platform ?supabase url anon_key args)"
    by (auto split: if_splits)
  from step1_cases[of platform ?supabase url anon_key args] in1
  obtain token where s1: "step1 platform ?supabase url anon_key args =
          Request (GenerateLink (email args)) # step2 platform url anon_key token"
    by auto
  with in1 have in2: "Stdout (render cookies) \<in> set (step2 platform url anon_key token)" by simp
  from step2_cases[of platform url anon_key token] in2
  obtain c where cs: "captureSession (createServerClient platform url anon_key token) = Inr c"
    by (auto simp add: step2_failure)
  from r go s1 have "run platform env args =
      (checked @ [Request (GenerateLink (email args))]) @ step2 platform url anon_key token"
    by simp
  with cs step2_success[OF cs] show ?thesis by blast
qed


lemmas capture_eval =
  captureSession_def cookies_get_def cookies_set_def cookies_remove_def assignProp_def js_def

text \<open>
  C7. The snippet is a fixed frame around the JSON text of the jar: it is defined for
  every jar and depends on nothing but the jar. For the empty jar the embedded literal
  is \<open>{}\<close> and running the snippet makes no assignment. Two runs of step 2 that
  capture the same jar print the same lines, whatever the URL, the key, the token and
  the provider were.
\<close>

theorem render_is_function_of_jar:
  "render cookies =
     joinLines templateHeadLines @ JSON_stringify cookies @ joinLines templateTailLines \<and>
   render [] = joinLines templateHeadLines @ js ''{}'' @ joinLines templateTailLines \<and>
   writeCookies [] = ([], None) \<and>
   (captureSession (createServerClient platform1 url1 key1 token1) = Inr cookies \<and>
    captureSession (createServerClient platform2 url2 key2 token2) = Inr cookies \<longrightarrow>
      stdout_of (step2 platform1 url1 key1 token1) = stdout_of (step2 platform2 url2 key2 token2))"
  by (simp add: render_frame JSON_stringify_empty writeCookies_empty step2_success)

theorem render_is_function_of_jar_witness:
  "captureSession
     (createServerClient
        (stubPlatform [] (js ''tok_1'') (CallSet (js ''A'') (js ''1'') [] (Resolve (None :: unit option))))
        (js ''https://a.example'') (js ''anon'') (js ''tok_1'')) =
     Inr [(js ''A'', \<lparr>entry_value = js ''1'', entry_options = []\<rparr>)] \<and>
   captureSession
     (createServerClient
        (stubPlatform [] (js ''tok_2'')
           (CallGet (js ''A'') (\<lambda>r. CallSet (js ''A'') (js ''0'') []
              (CallSet (js ''A'') (js ''1'') [] (Resolve (None :: unit option))))))
        (js ''https://b.example'') (js ''key'') (js ''tok_2'')) =
     Inr [(js ''A'', \<lparr>entry_value = js ''1'', entry_options = []\<rparr>)] \<and>
   stdout_of
     (step2 (stubPlatform [] (js ''tok_1'')
               (CallSet (js ''A'') (js ''1'') [] (Resolve (None :: unit option))))
        (js ''https://a.example'') (js ''anon'') (js ''tok_1'')) =
   stdout_of
     (step2 (stubPlatform [] (js ''tok_2'')
               (CallGet (js ''A'') (\<lambda>r. CallSet (js ''A'') (js ''0'') []
                  (CallSet (js ''A'') (js ''1'') [] (Resolve (None :: unit option))))))
        (js ''https://b.example'') (js ''key'') (js ''tok_2''))"
proof -
  let ?p1 = "stubPlatform [] (js ''tok_1'')
               (CallSet (js ''A'') (js ''1'') [] (Resolve (None :: unit option)))"
  let ?p2 = "stubPlatform [] (js ''tok_2'')
               (CallGet (js ''A'') (\<lambda>r. CallSet (js ''A'') (js ''0'') []
                  (CallSet (js ''A'') (js ''1'') [] (Resolve (None :: unit option)))))"
  let ?jar = "[(js ''A'', \<lparr>entry_value = js ''1'', entry_options = []\<rparr>)]"
  have c1: "captureSession (createServerClient ?p1 (js ''https://a.example'') (js ''anon'')
              (js ''tok_1'')) = Inr ?jar"
    by (simp add: stubPlatform_def capture_eval)
  have c2: "captureSession (createServerClient ?p2 (js ''https://b.example'') (js ''key'')
              (js ''tok_2'')) = Inr ?jar"
    by (simp add: stubPlatform_def capture_eval)
  from render_is_function_of_jar
         [of ?jar ?p1 "js ''https://a.example''" "js ''anon''" "js ''tok_1''"
             ?p2 "js ''https://b.example''" "js ''key''" "js ''tok_2''"] c1 c2
  show ?thesis by blast
qed

text \<open>
  C3. When the provider resolves with an error, whatever it wrote before, the capture
  yields the error and no jar, and step 2 consists of the request, the diagnostic on the
  error stream and exit status 1. A run prints a snippet only in one way: verification
  succeeded with some jar and the run ends with the complete block for that jar and
  exit status 0.
\<close>

theorem verification_error_gives_no_jar:
  "(fst (verifyOtp (createServerClient platform url anon_key token) []) = Some error \<longrightarrow>
      captureSession (createServerClient platform url anon_key token) = Inl error \<and>
      step2 platform url anon_key token =
        [Request (VerifyOtp token), Stderr verifyErrorMessage (Some error), Exit 1]) \<and>
   (Stdout (render cookies) \<in> set (run platform env args) \<longrightarrow>
      (\<exists>url' anon_key' token' c pre.
         captureSession (createServerClient platform url' anon_key' token') = Inr c \<and>
         run platform env args =
           pre @ [Request (VerifyOtp token'), Stdout [], Stdout jsSnippetInstructions, Stdout [],
                  Stdout (render c), Stdout [], Stdout jsSnippetInstructions, Exit 0]))"
proof (intro conjI impI)
  assume e: "fst (verifyOtp (createServerClient platform url anon_key token) []) = Some error"
  from captureSession_error[OF e]
  show "captureSession (createServerClient platform url anon_key token) = Inl error" .
  from captureSession_error[OF e, THEN step2_failure]
  show "step2 platform url anon_key token =
        [Request (VerifyOtp token), Stderr verifyErrorMessage (Some error), Exit 1]" .
next
  assume "Stdout (render cookies) \<in> set (run platform env args)"
  from run_snippet_complete[OF this]
  show "\<exists>url' anon_key' token' c pre.
         captureSession (createServerClient platform url' anon_key' token') = Inr c \<and>
         run platform env args =
           pre @ [Request (VerifyOtp token'), Stdout [], Stdout jsSnippetInstructions, Stdout [],
                  Stdout (render c), Stdout [], Stdout jsSnippetInstructions, Exit 0]"
    by metis
qed

lemmas run_eval =
  run_def falsy_def supabase_url_def supabase_anon_key_def service_role_key_def logicalOr_def
  step0_def step1_def step2_def stubPlatform_def stubEnv_def stubArgs_def

theorem verification_error_gives_no_jar_witness:
  "fst (verifyOtp
         (createServerClient
            (stubPlatform [js ''7''] (js ''tok_1'')
               (CallSet (js ''A'') (js ''1'') [] (Resolve (Some (js ''expired'')))))
            (js ''http://localhost:54321'') (js ''anon'') (js ''tok_1'')) []) =
     Some (js ''expired'') \<and>
   captureSession
     (createServerClient
        (stubPlatform [js ''7''] (js ''tok_1'')
           (CallSet (js ''A'') (js ''1'') [] (Resolve (Some (js ''expired'')))))
        (js ''http://localhost:54321'') (js ''anon'') (js ''tok_1'')) = Inl (js ''expired'') \<and>
   run (stubPlatform [js ''7''] (js ''tok_1'')
          (CallSet (js ''A'') (js ''1'') [] (Resolve (Some (js ''expired''))))) stubEnv stubArgs =
     [Request (SelectUsers (js ''user@example.com'')),
      Stdout (js ''// Email: user@example.com''), Stdout (js ''// User ID: 7''),
      Request (GenerateLink (js ''user@example.com'')), Request (VerifyOtp (js ''tok_1'')),
      Stderr verifyErrorMessage (Some (js ''expired'')), Exit 1] \<and>
   Stdout (render [(js ''A'', \<lparr>entry_value = js ''1'', entry_options = []\<rparr>)]) \<in>
     set (run (stubPlatform [js ''7''] (js ''tok_1'')
                 (CallSet (js ''A'') (js ''1'') [] (Resolve (None :: jsstring option))))
            stubEnv stubArgs) \<and>
   run (stubPlatform [js ''7''] (js ''tok_1'')
          (CallSet (js ''A'') (js ''1'') [] (Resolve (None :: jsstring option)))) stubEnv stubArgs =
     [Request (SelectUsers (js ''user@example.com'')),
      Stdout (js ''// Email: user@example.com''), Stdout (js ''// User ID: 7''),
      Request (GenerateLink (js ''user@example.com'')), Request (VerifyOtp (js ''tok_1'')),
      Stdout [], Stdout jsSnippetInstructions, Stdout [],
      Stdout (render [(js ''A'', \<lparr>entry_value = js ''1'', entry_options = []\<rparr>)]),
      Stdout [], Stdout jsSnippetInstructions, Exit 0]"
proof -
  let ?bad = "stubPlatform [js ''7''] (js ''tok_1'')
                (CallSet (js ''A'') (js ''1'') [] (Resolve (Some (js ''expired''))))"
  let ?good = "stubPlatform [js ''7''] (js ''tok_1'')
                 (CallSet (js ''A'') (js ''1'') [] (Resolve (None :: jsstring option)))"
  let ?jar = "[(js ''A'', \<lparr>entry_value = js ''1'', entry_options = []\<rparr>)]"
  have failed: "fst (verifyOtp (createServerClient ?bad (js ''http://localhost:54321'')
                  (js ''anon'') (js ''tok_1'')) []) = Some (js ''expired'')"
    by (simp add: stubPlatform_def)
  have bad_run: "run ?bad stubEnv stubArgs =
     [Request (SelectUsers (js ''user@example.com'')),
      Stdout (js ''// Email: user@example.com''), Stdout (js ''// User ID: 7''),
      Request (GenerateLink (js ''user@example.com'')), Request (VerifyOtp (js ''tok_1'')),
      Stderr verifyErrorMessage (Some (js ''expired'')), Exit 1]"
    by (simp add: run_eval capture_eval)
  have good_run: "run ?good stubEnv stubArgs =
     [Request (SelectUsers (js ''user@example.com'')),
      Stdout (js ''// Email: user@example.com''), Stdout (js ''// User ID: 7''),
      Request (GenerateLink (js ''user@example.com'')), Request (VerifyOtp (js ''tok_1'')),
      Stdout [], Stdout jsSnippetInstructions, Stdout [], Stdout (render ?jar),
      Stdout [], Stdout jsSnippetInstructions, Exit 0]"
    by (simp add: run_eval capture_eval)
  have printed: "Stdout (render ?jar) \<in> set (run ?good stubEnv stubArgs)"
    by (simp add: good_run)
  from verification_error_gives_no_jar
         [of ?bad "js ''http://localhost:54321''" "js ''anon''" "js ''tok_1''" "js ''expired''"
             ?jar stubEnv stubArgs]
       verification_error_gives_no_jar
         [of ?good "js ''http://localhost:54321''" "js ''anon''" "js ''tok_1''" "js ''expired''"
             ?jar stubEnv stubArgs]
  show ?thesis using failed bad_run good_run printed by simp
qed

section \<open>What the jar holds after verification\<close>

lemma map_of_ownPut: "map_of (ownPut k v ps) = (map_of ps)(k \<mapsto> v)"
  by (induction ps) (auto simp add: fun_upd_twist)

lemma keys_ownPut_plain:
  "arrayIndex k = None \<Longrightarrow>
   map fst (ownPut k v ps) = (if k \<in> set (map fst ps) then map fst ps else map fst ps @ [k])"
  by (induction ps) (force simp add: keyBefore_def)+

lemma keys_cookies_set_plain:
  "plainName name \<Longrightarrow>
   map fst (cookies_set name value options cookies) =
     (if name \<in> set (map fst cookies) then map fst cookies else map fst cookies @ [name])"
  by (simp add: cookies_set_def assignProp_def plainName_def keys_ownPut_plain)

lemma verifyOtp_order:
  "list_all plainName (map fst (writeLog p cookies)) \<Longrightarrow>
   map fst (snd (verifyOtp p cookies)) =
     insertionOrder (map fst cookies) (map fst (writeLog p cookies))"
proof (induction p arbitrary: cookies)
  case (Resolve x)
  then show ?case by (simp add: insertionOrder_def)
next
  case (CallGet name k)
  then show ?case by (simp add: cookies_get_def)
next
  case (CallSet name v opts p)
  then show ?case by (simp add: insertionOrder_def keys_cookies_set_plain)
next
  case (CallRemove name options p)
  then show ?case by (simp add: cookies_remove_def)
qed

lemma map_of_cookies_set:
  "map_of (cookies_set name value options cookies) =
     (if name = js ''__proto__'' then map_of cookies
      else (map_of cookies)(name \<mapsto> \<lparr>entry_value = value, entry_options = options\<rparr>))"
  by (simp add: cookies_set_def assignProp_def map_of_ownPut)

lemma verifyOtp_entries:
  "map_of (snd (verifyOtp p cookies)) =
     map_of cookies ++ map_of (rev (filter (\<lambda>(n, e). n \<noteq> js ''__proto__'') (writeLog p cookies)))"
proof (induction p arbitrary: cookies)
  case (Resolve x)
  then show ?case by simp
next
  case (CallGet name k)
  then show ?case by (simp add: cookies_get_def)
next
  case (CallSet name v opts p)
  then show ?case by (auto simp add: map_of_cookies_set map_add_def fun_eq_iff split: option.splits)
next
  case (CallRemove name options p)
  then show ?case by (simp add: cookies_remove_def)
qed


lemma keys_ownPut: "fst ` set (ownPut k v ps) = insert k (fst ` set ps)"
proof -
  have "fst ` set (ownPut k v ps) = dom (map_of (ownPut k v ps))"
    by (simp add: dom_map_of_conv_image_fst)
  also have "\<dots> = insert k (dom (map_of ps))"
    by (simp add: map_of_ownPut)
  finally show ?thesis
    by (simp add: dom_map_of_conv_image_fst)
qed

lemma keyBefore_asym: "keyBefore a b \<Longrightarrow> \<not> keyBefore b a"
  by (auto simp add: keyBefore_def split: option.splits)

lemma keyBefore_through: "keyBefore a b \<Longrightarrow> \<not> keyBefore c b \<Longrightarrow> \<not> keyBefore c a"
  by (auto simp add: keyBefore_def split: option.splits)

lemma wfKeys_ownPut: "wfKeys (map fst ps) \<Longrightarrow> wfKeys (map fst (ownPut k v ps))"
proof (induction ps)
  case Nil
  then show ?case by simp
next
  case (Cons p ps)
  obtain k' v' where p: "p = (k', v')" by (cases p)
  from Cons.prems p have fresh: "k' \<notin> fst ` set ps"
    and later: "\<And>c. c \<in> fst ` set ps \<Longrightarrow> \<not> keyBefore c k'"
    and rest: "wfKeys (map fst ps)"
    by auto
  show ?case
  proof (cases "k' = k")
    case True
    with Cons.prems p show ?thesis by simp
  next
    case ne: False
    show ?thesis
    proof (cases "keyBefore k k'")
      case True
      have 1: "k \<notin> fst ` set ps"
        using later True by blast
      have 2: "\<not> keyBefore c k" if "c \<in> fst ` set ps" for c
        using keyBefore_through[OF True later[OF that]] .
      have 3: "\<not> keyBefore k' k"
        using True by (rule keyBefore_asym)
      have "ownPut k v (p # ps) = (k, v) # (k', v') # ps"
        using p ne True by simp
      then show ?thesis
        using 1 2 3 fresh later rest ne by simp
    next
      case False
      have ih: "wfKeys (map fst (ownPut k v ps))"
        using rest by (rule Cons.IH)
      have "ownPut k v (p # ps) = (k', v') # ownPut k v ps"
        using p ne False by simp
      then show ?thesis
        using ih fresh later ne False by (simp add: keys_ownPut)
    qed
  qed
qed

lemma wfKeys_distinct: "wfKeys ks \<Longrightarrow> distinct ks"
  by (induction ks) auto

lemma wfKeys_cookies_set:
  "wfKeys (map fst cookies) \<Longrightarrow> wfKeys (map fst (cookies_set name v opts cookies))"
  by (simp add: cookies_set_def assignProp_def wfKeys_ownPut)

lemma wfKeys_verifyOtp:
  "wfKeys (map fst cookies) \<Longrightarrow> wfKeys (map fst (snd (verifyOtp p cookies)))"
proof (induction p arbitrary: cookies)
  case (Resolve x)
  then show ?case by simp
next
  case (CallGet name k)
  then show ?case by (simp add: cookies_get_def)
next
  case (CallSet name v opts p)
  then show ?case by (simp add: wfKeys_cookies_set)
next
  case (CallRemove name opts p)
  then show ?case by (simp add: cookies_remove_def)
qed

lemma captured_names_distinct: "distinct (map fst (snd (verifyOtp p [])))"
  using wfKeys_verifyOtp[of "[]" p] wfKeys_distinct by simp

lemma last_write_wins:
  "name \<noteq> js ''__proto__'' \<Longrightarrow>
   map_of (cookies_set name v2 a2 (cookies_set name v1 a1 cookies)) name =
     Some \<lparr>entry_value = v2, entry_options = a2\<rparr>"
  by (simp add: map_of_cookies_set)


lemma capture_matches_writes:
  assumes "captureSession p = Inr cookies"
  shows "map_of cookies =
           map_of (rev (filter (\<lambda>(n, e). n \<noteq> js ''__proto__'') (writeLog p [])))"
    and "distinct (map fst cookies)"
proof -
  from assms have c: "cookies = snd (verifyOtp p [])"
    by (cases "verifyOtp p []") (auto simp add: captureSession_def split: option.splits)
  show "map_of cookies =
           map_of (rev (filter (\<lambda>(n, e). n \<noteq> js ''__proto__'') (writeLog p [])))"
    using verifyOtp_entries[of p "[]"] c by simp
  show "distinct (map fst cookies)"
    using captured_names_distinct[of p] c by simp
qed

lemmas key_eval = keyBefore_def arrayIndex_def isDigit_def digitsToNat_def

lemmas json_eval =
  JSON_stringify_def jsonObject_def jsonMember_def jsonEntry_def jsonOptions_def
  QuoteJSONString_def jsonEscape_def isLeadSurrogate_def isTrailSurrogate_def js_def

lemma scenario_run:
  "run scenarioPlatform stubEnv scenarioArgs =
     [Request (GenerateLink (js ''user@example.com'')), Request (VerifyOtp (js ''tok_1'')),
      Stdout [], Stdout jsSnippetInstructions, Stdout [], Stdout (render scenarioJar),
      Stdout [], Stdout jsSnippetInstructions, Exit 0]"
  by (simp add: run_def falsy_def supabase_url_def supabase_anon_key_def service_role_key_def
        logicalOr_def step0_def step1_def step2_def stubEnv_def scenarioArgs_def
        scenarioPlatform_def scenarioVerifier_def scenarioJar_def capture_eval key_eval)

lemma scenario_json:
  \<open>JSON_stringify scenarioJar =
     js ''{"A":{"value":"1","options":{}},"B":{"value":"2","options":{"path":"/app"}}}''\<close>
  by (simp add: scenarioJar_def json_eval)

lemma scenario_writes:
  "writeCookies scenarioJar = ([js ''A=1'', js ''B=2; path=/app''], None)"
  by (simp add: scenarioJar_def writeCookies_def cookieString_def string_eval)

lemma writeCookies_loop_done:
  "writeCookies_loop cookies names acc = (written, None) \<Longrightarrow>
   \<exists>rs. written = acc @ rs \<and>
        map Inr rs =
          map (\<lambda>n. case map_of cookies n of Some e \<Rightarrow> cookieString n e | None \<Rightarrow> Inl TypeError)
            names"
proof (induction names arbitrary: acc)
  case Nil
  then show ?case by simp
next
  case (Cons name names)
  from Cons.prems obtain e s where
    e: "map_of cookies name = Some e" and s: "cookieString name e = Inr s"
    and rest: "writeCookies_loop cookies names (acc @ [s]) = (written, None)"
    by (auto split: if_splits option.splits sum.splits)
  from Cons.IH[OF rest] obtain rs where
    "written = (acc @ [s]) @ rs"
    "map Inr rs =
       map (\<lambda>n. case map_of cookies n of Some e \<Rightarrow> cookieString n e | None \<Rightarrow> Inl TypeError)
         names"
    by blast
  with e s show ?case
    by (intro exI[of _ "s # rs"]) simp
qed

lemma map_of_distinct_keys:
  "distinct (map fst ps) \<Longrightarrow>
   map (\<lambda>n. case map_of ps n of Some e \<Rightarrow> f n e | None \<Rightarrow> d) (map fst ps) =
   map (\<lambda>(n, e). f n e) ps"
  by (induction ps) (auto simp add: rev_image_eqI)

lemma writeCookies_done:
  assumes "writeCookies cookies = (written, None)" "distinct (map fst cookies)"
  shows "map Inr written = map (\<lambda>(n, e). cookieString n e) cookies"
proof -
  from writeCookies_loop_done[OF assms(1)[unfolded writeCookies_def]]
  have "map Inr written =
          map (\<lambda>n. case map_of cookies n of Some e \<Rightarrow> cookieString n e | None \<Rightarrow> Inl TypeError)
            (map fst cookies)"
    by auto
  with map_of_distinct_keys[OF assms(2), where f = cookieString and d = "Inl TypeError"]
  show ?thesis by simp
qed

text \<open>
  C6, with insertion order stated for plain names. In the end-to-end scenario the run
  prints the snippet for the jar holding \<open>A\<close> then \<open>B\<close>; the embedded literal lists \<open>A\<close>
  before \<open>B\<close>, and running the snippet assigns \<open>A=1\<close> and then \<open>B=2; path=/app\<close> to
  \<open>document.cookie\<close>. In general, when the names written are plain, the keys of the
  jar are the names in the order of their first insertion; the literal lists the
  entries in the order of the keys, and a snippet that runs to its end has made one
  assignment per entry, in that order.
\<close>

theorem snippet_keeps_insertion_order:
  \<open>run scenarioPlatform stubEnv scenarioArgs =
     [Request (GenerateLink (js ''user@example.com'')), Request (VerifyOtp (js ''tok_1'')),
      Stdout [], Stdout jsSnippetInstructions, Stdout [], Stdout (render scenarioJar),
      Stdout [], Stdout jsSnippetInstructions, Exit 0] \<and>
   JSON_stringify scenarioJar =
     js ''{"A":{"value":"1","options":{}},"B":{"value":"2","options":{"path":"/app"}}}'' \<and>
   writeCookies scenarioJar = ([js ''A=1'', js ''B=2; path=/app''], None) \<and>
   (list_all plainName (map fst (writeLog p [])) \<longrightarrow>
      map fst (snd (verifyOtp p [])) = insertionOrder [] (map fst (writeLog p []))) \<and>
   JSON_stringify cookies = jsonObject (map (\<lambda>(name, e). jsonMember name (jsonEntry e)) cookies) \<and>
   (writeCookies cookies = (written, None) \<and> distinct (map fst cookies) \<longrightarrow>
      map Inr written = map (\<lambda>(name, e). cookieString name e) cookies)\<close>
  using scenario_run scenario_json scenario_writes verifyOtp_order[of p "[]"]
    writeCookies_done[of cookies written]
  by (simp add: JSON_stringify_def)

theorem snippet_keeps_insertion_order_witness:
  "list_all plainName [js ''b'', js ''a'', js ''b''] \<and>
   map fst (snd (verifyOtp
       (CallSet (js ''b'') (js ''1'') []
         (CallSet (js ''a'') (js ''2'') []
           (CallSet (js ''b'') (js ''3'') [] (Resolve (None :: unit option))))) [])) =
     [js ''b'', js ''a''] \<and>
   writeCookies scenarioJar = ([js ''A=1'', js ''B=2; path=/app''], None) \<and>
   distinct (map fst scenarioJar) \<and>
   map (\<lambda>(name, e). cookieString name e) scenarioJar =
     [Inr (js ''A=1''), Inr (js ''B=2; path=/app'')]"
proof -
  let ?p = "CallSet (js ''b'') (js ''1'') []
             (CallSet (js ''a'') (js ''2'') []
               (CallSet (js ''b'') (js ''3'') [] (Resolve (None :: unit option))))"
  have names: "map fst (writeLog ?p []) = [js ''b'', js ''a'', js ''b'']"
    by simp
  have plain: "list_all plainName [js ''b'', js ''a'', js ''b'']"
    by (simp add: plainName_def key_eval js_def)
  have order: "insertionOrder [] [js ''b'', js ''a'', js ''b''] = [js ''b'', js ''a'']"
    by (simp add: insertionOrder_def js_def)
  have keys: "distinct (map fst scenarioJar)"
    by (simp add: scenarioJar_def js_def)
  from snippet_keeps_insertion_order
         [of ?p scenarioJar "[js ''A=1'', js ''B=2; path=/app'']"] names plain order keys
  show ?thesis by simp
qed

text \<open>
  C6, where it says that insertion order is always preserved. It is not kept for names
  that are array indices: written in the order
  \<open>2\<close>, \<open>1\<close>, the cookies are captured, and later assigned, in the order \<open>1\<close>, \<open>2\<close>.
\<close>

theorem numeric_names_are_reordered:
  "map fst (writeLog
       (CallSet (js ''2'') (js ''x'') []
         (CallSet (js ''1'') (js ''y'') [] (Resolve (None :: unit option)))) []) =
     [js ''2'', js ''1''] \<and>
   captureSession
       (CallSet (js ''2'') (js ''x'') []
         (CallSet (js ''1'') (js ''y'') [] (Resolve (None :: unit option)))) =
     Inr [(js ''1'', \<lparr>entry_value = js ''y'', entry_options = []\<rparr>),
          (js ''2'', \<lparr>entry_value = js ''x'', entry_options = []\<rparr>)] \<and>
   writeCookies [(js ''1'', \<lparr>entry_value = js ''y'', entry_options = []\<rparr>),
                 (js ''2'', \<lparr>entry_value = js ''x'', entry_options = []\<rparr>)] =
     ([js ''1=y'', js ''2=x''], None)"
  by (simp add: capture_eval key_eval writeCookies_def cookieString_def string_eval)

text \<open>
  C1, at an input where the code departs from it. A provider that writes \<open>sid\<close> and then
  \<open>__proto__\<close> and reports success has made two writes; the jar returned holds \<open>sid\<close>
  only. For every other name the jar holds exactly the last entry written under it
  (\<open>capture_matches_writes\<close>).
\<close>

theorem proto_cookie_is_not_captured:
  "writeLog
     (CallSet (js ''sid'') (js ''1'') []
       (CallSet (js ''__proto__'') (js ''2'') [] (Resolve (None :: unit option)))) [] =
     [(js ''sid'', \<lparr>entry_value = js ''1'', entry_options = []\<rparr>),
      (js ''__proto__'', \<lparr>entry_value = js ''2'', entry_options = []\<rparr>)] \<and>
   captureSession
     (CallSet (js ''sid'') (js ''1'') []
       (CallSet (js ''__proto__'') (js ''2'') [] (Resolve (None :: unit option)))) =
     Inr [(js ''sid'', \<lparr>entry_value = js ''1'', entry_options = []\<rparr>)]"
  by (simp add: capture_eval)

text \<open>
  C5, at an input where the code departs from it. Two writes under \<open>__proto__\<close> leave
  the jar without an entry of that name. For every other name the second write wins
  (\<open>last_write_wins\<close>) and the name occurs once (\<open>captured_names_distinct\<close>).
\<close>

theorem proto_cookie_has_no_entry:
  "cookies_set (js ''__proto__'') (js ''2'') []
     (cookies_set (js ''__proto__'') (js ''1'') [] []) = [] \<and>
   map_of (cookies_set (js ''__proto__'') (js ''2'') []
             (cookies_set (js ''__proto__'') (js ''1'') [] [])) (js ''__proto__'') = None"
  by (simp add: cookies_set_def assignProp_def)

end
